theory Spec2Isabelle
  imports Complex_Main "HOL-Library.Sublist"
begin

section \<open>Strings and the regular expressions of the SQL gate\<close>

text \<open>
  A Python \<open>str\<close> is modelled as a \<open>string\<close>; a \<open>char\<close> stands for the code point of the
  same number, so the model covers the strings whose code points are below 256. The
  classes below are those of Python 3 on that range: \<open>str.isspace\<close> (used by
  \<open>str.strip\<close> and by \<open>\s\<close>) and the word characters of \<open>\w\<close> and \<open>\b\<close>.
\<close>

definition isspace :: "char \<Rightarrow> bool" where
  "isspace c =
     (let n = (of_char c :: nat)
      in (9 \<le> n \<and> n \<le> 13) \<or> (28 \<le> n \<and> n \<le> 32) \<or> n = 133 \<or> n = 160)"

definition is_word :: "char \<Rightarrow> bool" where
  "is_word c =
     (let n = (of_char c :: nat)
      in (48 \<le> n \<and> n \<le> 57) \<or> (65 \<le> n \<and> n \<le> 90) \<or> n = 95 \<or> (97 \<le> n \<and> n \<le> 122)
         \<or> n = 170 \<or> n = 178 \<or> n = 179 \<or> n = 181 \<or> n = 185 \<or> n = 186
         \<or> (188 \<le> n \<and> n \<le> 190) \<or> (192 \<le> n \<and> n \<le> 214) \<or> (216 \<le> n \<and> n \<le> 246)
         \<or> (248 \<le> n \<and> n \<le> 255))"

text \<open>
  \<open>upper\<close> is \<open>str.upper\<close> on one character. It is applied to the text a keyword pattern
  matched and to decide such a match; on the modelled range no character other than the
  two cases of an ASCII letter matches that letter under \<open>re.IGNORECASE\<close>.
\<close>

definition upper :: "char \<Rightarrow> char" where
  "upper c =
     (let n = (of_char c :: nat)
      in if 97 \<le> n \<and> n \<le> 122 then char_of (n - 32) else c)"

text \<open>\<open>s.strip()\<close>: leading and trailing whitespace removed.\<close>

definition strip :: "string \<Rightarrow> string" where
  "strip s = rev (dropWhile isspace (rev (dropWhile isspace s)))"

text \<open>\<open>\b\<close> after a word character: the end of the string or a non-word character.\<close>

definition word_end :: "string \<Rightarrow> bool" where
  "word_end rest = (case rest of [] \<Rightarrow> True | c # _ \<Rightarrow> \<not> is_word c)"

text \<open>The pattern \<open>KW\b\<close> under \<open>re.IGNORECASE\<close>, tried at the front of \<open>t\<close>.\<close>

definition kw_here :: "string \<Rightarrow> string \<Rightarrow> bool" where
  "kw_here kw t = (map upper (take (length kw) t) = kw \<and> word_end (drop (length kw) t))"

text \<open>
  \<open>re.match(r"^\s*(SELECT|WITH)\b", s, re.IGNORECASE)\<close>: the result is \<open>match.group(1)\<close>,
  or \<open>None\<close> when there is no match. Neither keyword begins with whitespace, so the greedy
  \<open>\s*\<close> never gives a character back.
\<close>

definition match_first_keyword :: "string \<Rightarrow> string option" where
  "match_first_keyword s =
     (let t = dropWhile isspace s
      in if kw_here ''SELECT'' t then Some (take 6 t)
         else if kw_here ''WITH'' t then Some (take 4 t)
         else None)"

text \<open>
  \<open>re.search(r"\bKW\b", s, re.IGNORECASE)\<close> as a scan from the left; the flag says whether
  the character before the current position is a word character.
\<close>

fun search_word :: "string \<Rightarrow> bool \<Rightarrow> string \<Rightarrow> bool" where
  "search_word kw prev_word [] = False"
| "search_word kw prev_word (c # cs) =
     ((\<not> prev_word \<and> kw_here kw (c # cs)) \<or> search_word kw (is_word c) cs)"

definition re_search_word :: "string \<Rightarrow> string \<Rightarrow> bool" where
  "re_search_word kw s = search_word kw False s"

section \<open>The SQL validation of \<open>ask_nlp_query\<close>\<close>

record verdict =
  is_valid_query_structure :: bool
  is_safe_for_readonly :: bool
  validation_error_message :: string

definition forbidden_keywords :: "string list" where
  "forbidden_keywords =
     [''INSERT'', ''UPDATE'', ''DELETE'', ''DROP'', ''CREATE'',
      ''ALTER'', ''TRUNCATE'', ''GRANT'', ''REVOKE'', ''MERGE'']"

definition empty_message :: string where
  "empty_message = ''LLM returned an empty SQL query.''"

definition with_message :: string where
  "with_message = ''SQL starts with WITH but does not contain a SELECT statement.''"

definition start_message :: string where
  "start_message = ''Generated SQL must start with SELECT or WITH.''"

definition disallowed_message :: "string \<Rightarrow> string" where
  "disallowed_message keyword =
     ''Generated SQL contains a disallowed keyword: '' @ keyword
       @ ''. Only SELECT queries are permitted.''"

definition generic_message :: string where
  "generic_message = ''Generated SQL failed validation (structure or safety).''"

text \<open>The structure phase: the flag \<open>is_valid_query_structure\<close> and the message it sets.\<close>

definition check_structure :: "string \<Rightarrow> bool \<times> string" where
  "check_structure normalized_sql_for_matching =
     (case match_first_keyword normalized_sql_for_matching of
        Some g \<Rightarrow>
          if map upper g = ''WITH'' then
            (if re_search_word ''SELECT'' normalized_sql_for_matching then (True, [])
             else (False, with_message))
          else (True, [])
      | None \<Rightarrow> (False, start_message))"

text \<open>
  The three variables after the validation block. The loop over \<open>forbidden_keywords\<close>
  stops at the first keyword found, which is \<open>find\<close>.
\<close>

definition validate_sql :: "string \<Rightarrow> verdict" where
  "validate_sql generated_sql =
     (if generated_sql = [] \<or> strip generated_sql = [] then
        \<lparr>is_valid_query_structure = False, is_safe_for_readonly = True,
         validation_error_message = empty_message\<rparr>
      else
        (let normalized_sql_for_matching = strip generated_sql;
             (valid, msg) = check_structure normalized_sql_for_matching
         in if valid then
              (case find (\<lambda>keyword. re_search_word keyword normalized_sql_for_matching)
                      forbidden_keywords of
                 Some keyword \<Rightarrow>
                   \<lparr>is_valid_query_structure = True, is_safe_for_readonly = False,
                    validation_error_message = disallowed_message keyword\<rparr>
               | None \<Rightarrow>
                   \<lparr>is_valid_query_structure = True, is_safe_for_readonly = True,
                    validation_error_message = msg\<rparr>)
            else
              \<lparr>is_valid_query_structure = False, is_safe_for_readonly = True,
               validation_error_message = msg\<rparr>))"

text \<open>The test that sends the request to the rejection response, and its answer.\<close>

definition rejected :: "verdict \<Rightarrow> bool" where
  "rejected v = (\<not> is_valid_query_structure v \<or> \<not> is_safe_for_readonly v)"

definition rejection_answer :: "verdict \<Rightarrow> string" where
  "rejection_answer v =
     (if validation_error_message v = [] then generic_message
      else validation_error_message v)"

subsection \<open>The words of the specification\<close>

text \<open>
  The three notions the specification uses for a keyword \<open>kw\<close> written in upper case:
  the string begins with its letters after optional leading whitespace, in either case;
  it begins with it as a whole word, the letters being followed by the end of the string
  or by a non-word character; and it occurs somewhere as a whole word.
\<close>

definition begins_with :: "string \<Rightarrow> string \<Rightarrow> bool" where
  "begins_with kw s = (map upper (take (length kw) (dropWhile isspace s)) = kw)"

definition begins_with_word :: "string \<Rightarrow> string \<Rightarrow> bool" where
  "begins_with_word kw s =
     (begins_with kw s \<and> word_end (drop (length kw) (dropWhile isspace s)))"

definition occurs_as_word :: "string \<Rightarrow> string \<Rightarrow> bool" where
  "occurs_as_word kw s =
     (\<exists>pre mid post. s = pre @ mid @ post \<and> map upper mid = kw
        \<and> (pre = [] \<or> \<not> is_word (last pre)) \<and> (post = [] \<or> \<not> is_word (hd post)))"

section \<open>The SQL generator: cleaning the reply\<close>

text \<open>
  The post-processing of \<open>generate_sql_from_nlp\<close> on the text of the reply: strip, drop
  a leading \<open>```sql\<close> or else a leading \<open>```\<close>, drop a trailing \<open>```\<close>, strip again.
  \<open>generated_sql[:-3]\<close> keeps all but the last three characters.
\<close>

definition strip_markdown_fence :: "string \<Rightarrow> string" where
  "strip_markdown_fence reply_text =
     (let generated_sql = strip reply_text;
          generated_sql =
            (if prefix ''```sql'' generated_sql then drop 6 generated_sql
             else if prefix ''```'' generated_sql then drop 3 generated_sql
             else generated_sql);
          generated_sql =
            (if suffix ''```'' generated_sql
             then take (length generated_sql - 3) generated_sql
             else generated_sql)
      in strip generated_sql)"

section \<open>The direct-SQL service: values, errors and the outside world\<close>

text \<open>
  An exception is what the handlers read of it: its class as far as an \<open>except\<close> clause
  tells classes apart, \<open>str(e)\<close>, the attributes \<open>candidates\<close> and \<open>parts\<close> when present
  and truthy (as formatted into a message), and the entries of \<open>errors\<close> when present:
  an entry is falsy, or it has a \<open>message\<close>, or it is truthy without that key.
\<close>

datatype exc_kind = ValueError | TypeError | OtherException

datatype bq_error_entry = FalsyEntry | EntryWithMessage string | EntryWithoutMessage

record py_exception =
  kind :: exc_kind
  message :: string
  candidates :: "string option"
  parts :: "string option"
  errors :: "bq_error_entry list"

datatype http_exception = HTTPException (status_code: nat) (detail: string)

text \<open>
  What a helper of the endpoint raises: an \<open>HTTPException\<close> of its own making, or any
  other exception that escapes it.
\<close>

datatype raised = Http http_exception | Unexpected py_exception

text \<open>
  A float is the value it has; no arithmetic is done on floats here. A value in a row of
  BigQuery is a temporal object, given by its \<open>isoformat()\<close>, one of the plain types, or
  an object of another type, given by what \<open>float(value)\<close> does and by \<open>str(value)\<close>.
  A materialised cell is of a plain type.
\<close>

datatype pyfloat = Finite real | PosInf | NegInf | NaN

datatype float_conv = Converts pyfloat | Raises py_exception

datatype cell = CFloat pyfloat | CInt int | CStr string | CBool bool | CNone

datatype bq_value =
    Temporal string
  | BFloat pyfloat | BInt int | BStr string | BBool bool | BNone
  | Other float_conv string

text \<open>A plain value read as a value of BigQuery.\<close>

fun plain :: "cell \<Rightarrow> bq_value" where
  "plain (CFloat f) = BFloat f"
| "plain (CInt i) = BInt i"
| "plain (CStr s) = BStr s"
| "plain (CBool b) = BBool b"
| "plain CNone = BNone"

text \<open>The other way round: the plain value that a value of BigQuery is, if it is one.\<close>

fun plain_cell :: "bq_value \<Rightarrow> cell option" where
  "plain_cell (BFloat f) = Some (CFloat f)"
| "plain_cell (BInt i) = Some (CInt i)"
| "plain_cell (BStr s) = Some (CStr s)"
| "plain_cell (BBool b) = Some (CBool b)"
| "plain_cell BNone = Some CNone"
| "plain_cell (Temporal isoformat) = None"
| "plain_cell (Other conv s) = None"

type_synonym row = "(string \<times> bq_value) list"
type_synonym record_dict = "(string \<times> cell) list"

text \<open>
  \<open>bq_client.query(sql).result(timeout=120)\<close> with the iteration over its rows: the rows,
  or what is raised. A generative model: what constructing it raises, if anything, and
  what \<open>generate_content\<close> gives for a prompt, the text of the reply or what is raised
  on the way to it.
\<close>

type_synonym bq_client = "string \<Rightarrow> py_exception + row list"

record llm =
  model_init :: "py_exception option"
  generate_content :: "string \<Rightarrow> py_exception + string"

text \<open>
  The services and the library around the three functions: \<open>json.dumps\<close> on a
  dictionary of plain cells, on which it always returns, and the name of the type of a
  value, which \<open>json.dumps\<close> puts into the \<open>TypeError\<close> it raises at a value it cannot
  serialise.
\<close>

record services =
  vertex_ai_initialized :: bool
  bq_client :: "bq_client option"
  sql_model :: llm
  summary_model :: llm
  json_dumps :: "record_dict \<Rightarrow> string"
  type_name :: "bq_value \<Rightarrow> string"

text \<open>
  The fixed texts: the generation guidelines, the schema description of the configured
  table, its dotted name, and the numbered instructions that end the summary prompt.
\<close>

record prompts =
  sql_generation_guidelines :: string
  schema_description :: string
  table_name :: string
  summary_instructions :: string

section \<open>The query executor\<close>

text \<open>The branches of the loop body of \<open>execute_bigquery_query\<close>, in the order of the source.\<close>

fun materialize_value :: "bq_value \<Rightarrow> py_exception + cell" where
  "materialize_value (Temporal isoformat) = Inr (CStr isoformat)"
| "materialize_value (BFloat f) = Inr (CFloat f)"
| "materialize_value (BInt i) = Inr (CInt i)"
| "materialize_value (BStr s) = Inr (CStr s)"
| "materialize_value (BBool b) = Inr (CBool b)"
| "materialize_value BNone = Inr CNone"
| "materialize_value (Other (Converts f) s) = Inr (CFloat f)"
| "materialize_value (Other (Raises e) s) =
     (if kind e = TypeError \<or> kind e = ValueError then Inr (CStr s) else Inl e)"

text \<open>\<open>record[key] = ...\<close> on a dictionary that keeps the order of first insertion.\<close>

fun dict_set :: "string \<Rightarrow> cell \<Rightarrow> record_dict \<Rightarrow> record_dict" where
  "dict_set key v [] = [(key, v)]"
| "dict_set key v ((k, w) # rest) =
     (if k = key then (key, v) # rest else (k, w) # dict_set key v rest)"

fun fill_record :: "record_dict \<Rightarrow> row \<Rightarrow> py_exception + record_dict" where
  "fill_record record [] = Inr record"
| "fill_record record ((key, val) # items) =
     (case materialize_value val of
        Inl e \<Rightarrow> Inl e
      | Inr v \<Rightarrow> fill_record (dict_set key v record) items)"

fun fill_records :: "record_dict list \<Rightarrow> row list \<Rightarrow> py_exception + record_dict list" where
  "fill_records records [] = Inr records"
| "fill_records records (r # results) =
     (case fill_record [] r of
        Inl e \<Rightarrow> Inl e
      | Inr record \<Rightarrow> fill_records (records @ [record]) results)"

text \<open>
  The message built in the handler of the executor. Reading \<open>e.errors[0]['message']\<close>
  of a truthy entry without that key raises \<open>KeyError\<close>, whose \<open>str\<close> is the quoted key.
\<close>

definition key_error_message :: py_exception where
  "key_error_message =
     \<lparr>kind = OtherException, message = [CHR 0x27] @ ''message'' @ [CHR 0x27],
      candidates = None, parts = None, errors = []\<rparr>"

definition bq_error_message :: "py_exception \<Rightarrow> py_exception + string" where
  "bq_error_message e =
     (case errors e of
        [] \<Rightarrow> Inr (''Error executing BigQuery query: '' @ message e)
      | first # _ \<Rightarrow>
          (case first of
             EntryWithMessage m \<Rightarrow>
               Inr (''Error executing BigQuery query: '' @ message e @ ''; Details: '' @ m)
           | FalsyEntry \<Rightarrow>
               Inr (''Error executing BigQuery query: '' @ message e
                      @ ''; Details: Unknown BQ error'')
           | EntryWithoutMessage \<Rightarrow> Inl key_error_message))"

text \<open>The handler \<open>except Exception\<close> of the executor: what it raises for \<open>e\<close>.\<close>

definition execution_failure :: "py_exception \<Rightarrow> raised" where
  "execution_failure e =
     (case bq_error_message e of
        Inr error_message \<Rightarrow> Http (HTTPException 500 error_message)
      | Inl key_error \<Rightarrow> Unexpected key_error)"

text \<open>
  The second component is the list of the queries handed to the BigQuery client so far.
\<close>

definition execute_bigquery_query ::
  "bq_client option \<Rightarrow> string \<Rightarrow> string list
     \<Rightarrow> (raised + record_dict list) \<times> string list" where
  "execute_bigquery_query client sql_query sent =
     (case client of
        None \<Rightarrow>
          (Inl (Http (HTTPException 503 ''BigQuery client not initialized or unavailable.'')),
           sent)
      | Some run \<Rightarrow>
          if sql_query = [] then
            (Inl (Http (HTTPException 400 ''No SQL query provided for execution.'')), sent)
          else
            (case run sql_query of
               Inl e \<Rightarrow> (Inl (execution_failure e), sent @ [sql_query])
             | Inr results \<Rightarrow>
                 (case fill_records [] results of
                    Inl e \<Rightarrow> (Inl (execution_failure e), sent @ [sql_query])
                  | Inr records \<Rightarrow> (Inr records, sent @ [sql_query]))))"



section \<open>The SQL generator\<close>

definition sql_prompt :: "prompts \<Rightarrow> string \<Rightarrow> string \<Rightarrow> string" where
  "sql_prompt p table_schema_info nlp_question =
     ''\<newline>    '' @ sql_generation_guidelines p
       @ ''\<newline>\<newline>    Full Schema Details of `'' @ table_name p @ ''`:\<newline>    ''
       @ table_schema_info
       @ ''\<newline>\<newline>    Natural Language Question:\<newline>    '' @ nlp_question
       @ ''\<newline>\<newline>    SQL Query:\<newline>    ''"

text \<open>What the handlers append to a message from the attributes of the exception.\<close>

definition exception_details :: "py_exception \<Rightarrow> string" where
  "exception_details e =
     (case candidates e of Some c \<Rightarrow> '' Candidates: '' @ c | None \<Rightarrow> [])
       @ (case parts e of Some p \<Rightarrow> '' Parts: '' @ p | None \<Rightarrow> [])"

definition generate_sql_from_nlp ::
  "services \<Rightarrow> prompts \<Rightarrow> string \<Rightarrow> string \<Rightarrow> http_exception + string" where
  "generate_sql_from_nlp svc p table_schema_info nlp_question =
     (if \<not> vertex_ai_initialized svc then
        Inl (HTTPException 503 ''Vertex AI service not initialized or unavailable.'')
      else
        (case model_init (sql_model svc) of
           Some model_init_err \<Rightarrow>
             Inl (HTTPException 500
                   (''Could not initialize LLM model for SQL generation: ''
                      @ message model_init_err))
         | None \<Rightarrow>
             (case generate_content (sql_model svc) (sql_prompt p table_schema_info nlp_question) of
                Inr reply_text \<Rightarrow> Inr (strip_markdown_fence reply_text)
              | Inl e \<Rightarrow>
                  if kind e = ValueError then
                    Inl (HTTPException 500
                          (''LLM failed to generate valid SQL content: '' @ message e))
                  else
                    Inl (HTTPException 500
                          (''Error generating SQL from LLM: '' @ message e
                             @ exception_details e)))))"

section \<open>The summarizer\<close>

text \<open>\<open>str(n)\<close> for a natural number and for an integer.\<close>

fun str_nat :: "nat \<Rightarrow> string" where
  "str_nat n =
     (if n < 10 then [char_of (48 + n)]
      else str_nat (n div 10) @ [char_of (48 + n mod 10)])"

declare str_nat.simps [simp del]

definition str_int :: "int \<Rightarrow> string" where
  "str_int i = (if i < 0 then ''-'' @ str_nat (nat (- i)) else str_nat (nat i))"

text \<open>\<open>sep.join(xs)\<close> and the slice \<open>xs[:k]\<close>, whose negative \<open>k\<close> counts from the end.\<close>

fun join :: "string \<Rightarrow> string list \<Rightarrow> string" where
  "join sep [] = []"
| "join sep [x] = x"
| "join sep (x # y # ys) = x @ sep @ join sep (y # ys)"

definition slice_to :: "'a list \<Rightarrow> int \<Rightarrow> 'a list" where
  "slice_to xs k = (if 0 \<le> k then take (nat k) xs else take (length xs - nat (- k)) xs)"

text \<open>
  \<open>json.dumps(row_data)\<close> on a row of any values: the cells are serialised in order, and
  the first that is not of a plain type raises \<open>TypeError\<close>.
\<close>

definition json_type_error :: "services \<Rightarrow> bq_value \<Rightarrow> py_exception" where
  "json_type_error svc v =
     \<lparr>kind = TypeError,
      message = ''Object of type '' @ type_name svc v @ '' is not JSON serializable'',
      candidates = None, parts = None, errors = []\<rparr>"

fun dumps_row :: "services \<Rightarrow> record_dict \<Rightarrow> row \<Rightarrow> py_exception + string" where
  "dumps_row svc seen [] = Inr (json_dumps svc seen)"
| "dumps_row svc seen ((key, v) # items) =
     (case plain_cell v of
        None \<Rightarrow> Inl (json_type_error svc v)
      | Some c \<Rightarrow> dumps_row svc (seen @ [(key, c)]) items)"

text \<open>The lines \<open>Row i: ...\<close> of the sample, numbered from \<open>row_idx + 1\<close>.\<close>

fun row_lines :: "services \<Rightarrow> nat \<Rightarrow> row list \<Rightarrow> py_exception + string list" where
  "row_lines svc row_idx [] = Inr []"
| "row_lines svc row_idx (row_data # rest) =
     (case dumps_row svc [] row_data of
        Inl e \<Rightarrow> Inl e
      | Inr dumped \<Rightarrow>
          (case row_lines svc (row_idx + 1) rest of
             Inl e \<Rightarrow> Inl e
           | Inr rest_lines \<Rightarrow>
               Inr ((''Row '' @ str_nat (row_idx + 1) @ '': '' @ dumped @ ''\<newline>'')
                      # rest_lines)))"

definition rows_to_show :: "row list \<Rightarrow> int \<Rightarrow> row list" where
  "rows_to_show query_results max_rows_for_summary_context =
     slice_to query_results max_rows_for_summary_context"

definition context_data_str :: "services \<Rightarrow> row list \<Rightarrow> int \<Rightarrow> py_exception + string" where
  "context_data_str svc query_results max_rows_for_summary_context =
     (let num_total_rows = length query_results
      in if num_total_rows > 0 then
           (case (case rows_to_show query_results max_rows_for_summary_context of
                    [] \<Rightarrow> Inr []
                  | first_row # others \<Rightarrow>
                      (case row_lines svc 0 (first_row # others) of
                         Inl e \<Rightarrow> Inl e
                       | Inr sample_lines \<Rightarrow>
                           Inr (''Column Names: '' @ join '', '' (map fst first_row)
                                  @ ''\<newline>''
                                  @ ''Sample Data (first ''
                                  @ str_nat (length (first_row # others))
                                  @ '' of '' @ str_nat num_total_rows
                                  @ '' total rows):\<newline>''
                                  @ concat sample_lines))) of
              Inl e \<Rightarrow> Inl e
            | Inr sample \<Rightarrow>
                Inr (sample
                       @ (if int num_total_rows > max_rows_for_summary_context then
                            ''... and ''
                              @ str_int (int num_total_rows - max_rows_for_summary_context)
                              @ '' more rows.\<newline>''
                          else [])
                       @ ''Total rows retrieved: '' @ str_nat num_total_rows @ ''\<newline>''))
         else Inr ''The query returned no data (0 rows).\<newline>'')"

definition summary_prompt :: "prompts \<Rightarrow> string \<Rightarrow> string \<Rightarrow> string \<Rightarrow> string" where
  "summary_prompt p nlp_question sql_query context =
     ''\<newline>    You are a business analyst. Your task is to provide a concise, insightful ''
       @ ''summary based on the results of a database query that was run to answer a user''
       @ [CHR 0x27] @ ''s question.\<newline>\<newline>''
       @ ''    Original Natural Language Question from User:\<newline>    ''
       @ [CHR 0x22] @ nlp_question @ [CHR 0x22] @ ''\<newline>\<newline>''
       @ ''    The SQL Query that was executed to get the data:\<newline>    ```sql\<newline>    ''
       @ sql_query @ ''\<newline>    ```\<newline>\<newline>''
       @ ''    Data Results from the Query:\<newline>    '' @ context
       @ ''\<newline>\<newline>'' @ summary_instructions p"

text \<open>
  The result is \<open>Inl\<close> when the function raises, which the building of the context can
  do, between the two \<open>try\<close> blocks, and \<open>Inr\<close> for the string it returns.
\<close>

definition generate_business_summary ::
  "services \<Rightarrow> prompts \<Rightarrow> string \<Rightarrow> string \<Rightarrow> row list option \<Rightarrow> int
     \<Rightarrow> py_exception + string" where
  "generate_business_summary svc p nlp_question sql_query query_results
       max_rows_for_summary_context =
     (if \<not> vertex_ai_initialized svc then
        Inr (''Retrieved ''
               @ str_nat (case query_results of Some rows \<Rightarrow> length rows | None \<Rightarrow> 0)
               @ '' records. Summary generation failed: Vertex AI unavailable.'')
      else
        (case query_results of
           None \<Rightarrow>
             Inr ''Internal error: Query results were unexpectedly None before summarization.''
         | Some rows \<Rightarrow>
             (case model_init (summary_model svc) of
                Some model_init_err \<Rightarrow>
                  Inr (''Retrieved '' @ str_nat (length rows)
                         @ '' records. Error initializing summary model: ''
                         @ message model_init_err)
              | None \<Rightarrow>
                  (let num_total_rows = length rows
                   in case context_data_str svc rows max_rows_for_summary_context of
                        Inl e \<Rightarrow> Inl e
                      | Inr context \<Rightarrow>
                          (case generate_content (summary_model svc)
                                  (summary_prompt p nlp_question sql_query context) of
                             Inr reply_text \<Rightarrow>
                               (let summary_text = strip reply_text
                                in if summary_text \<noteq> [] then Inr summary_text
                                   else Inr (''Retrieved '' @ str_nat num_total_rows
                                               @ '' records, but could not generate a specific summary.''))
                           | Inl e \<Rightarrow>
                               Inr (''Successfully retrieved '' @ str_nat num_total_rows
                                      @ '' records. An error occurred while generating a business summary: ''
                                      @ message e @ exception_details e))))))"


section \<open>The endpoint \<open>/ask\<close>\<close>

record data_table_content =
  data :: "record_dict list"
  columns :: "string list"

record query_response =
  query :: string
  sql_query :: "string option"
  dataframe_content :: "data_table_content option"
  answer :: string

text \<open>
  The endpoint asks for the schema of the configured table, for which the function returns
  the fixed description once the client is there.
\<close>

definition get_bigquery_table_schema :: "services \<Rightarrow> prompts \<Rightarrow> http_exception + string" where
  "get_bigquery_table_schema svc p =
     (case bq_client svc of
        None \<Rightarrow> Inl (HTTPException 503 ''BigQuery client not initialized or unavailable.'')
      | Some _ \<Rightarrow> Inr (schema_description p))"

text \<open>
  The rows of plain cells that the executor returns, as the rows the summarizer is given.
\<close>

definition as_rows :: "record_dict list \<Rightarrow> row list" where
  "as_rows records = map (map (\<lambda>(key, c). (key, plain c))) records"

definition unexpected_answer :: "py_exception \<Rightarrow> string" where
  "unexpected_answer e = ''An unexpected server error occurred: '' @ message e @ ''.''"

text \<open>
  The result is \<open>Inl\<close> for an \<open>HTTPException\<close> that leaves the handler and \<open>Inr\<close> for a
  response body, sent with status 200. The list is that of the queries handed to the
  BigQuery client. An \<open>HTTPException\<close> of a helper is caught and its detail becomes the
  answer; any other exception is caught by the last handler, which answers with
  \<open>unexpected_answer\<close> and keeps the data if it was fetched.
\<close>

definition ask_nlp_query ::
  "services \<Rightarrow> prompts \<Rightarrow> string \<Rightarrow> string list
     \<Rightarrow> (http_exception + query_response) \<times> string list" where
  "ask_nlp_query svc p nlp_question sent =
     (if \<not> vertex_ai_initialized svc then
        (Inl (HTTPException 503 ''Vertex AI service failed to initialize on startup.''), sent)
      else if bq_client svc = None then
        (Inl (HTTPException 503 ''BigQuery client failed to initialize on startup.''), sent)
      else
        (case get_bigquery_table_schema svc p of
           Inl http_exc \<Rightarrow>
             (Inr \<lparr>query = nlp_question, sql_query = None, dataframe_content = None,
                   answer = detail http_exc\<rparr>, sent)
         | Inr table_schema \<Rightarrow>
             (case generate_sql_from_nlp svc p table_schema nlp_question of
                Inl http_exc \<Rightarrow>
                  (Inr \<lparr>query = nlp_question, sql_query = None, dataframe_content = None,
                        answer = detail http_exc\<rparr>, sent)
              | Inr generated_sql \<Rightarrow>
                  if rejected (validate_sql generated_sql) then
                    (Inr \<lparr>query = nlp_question, sql_query = Some generated_sql,
                          dataframe_content = None,
                          answer = rejection_answer (validate_sql generated_sql)\<rparr>, sent)
                  else
                    (case execute_bigquery_query (bq_client svc) generated_sql sent of
                       (Inl (Http http_exc), sent') \<Rightarrow>
                         (Inr \<lparr>query = nlp_question, sql_query = Some generated_sql,
                               dataframe_content = None, answer = detail http_exc\<rparr>, sent')
                     | (Inl (Unexpected e), sent') \<Rightarrow>
                         (Inr \<lparr>query = nlp_question, sql_query = Some generated_sql,
                               dataframe_content = None, answer = unexpected_answer e\<rparr>,
                          sent')
                     | (Inr query_results, sent') \<Rightarrow>
                         (let df_content_for_response =
                                \<lparr>data = query_results,
                                 columns = (case query_results of
                                              [] \<Rightarrow> []
                                            | first_row # _ \<Rightarrow> map fst first_row)\<rparr>
                          in case generate_business_summary svc p nlp_question generated_sql
                                    (Some (as_rows query_results)) 10 of
                               Inr business_summary \<Rightarrow>
                                 (Inr \<lparr>query = nlp_question, sql_query = Some generated_sql,
                                       dataframe_content = Some df_content_for_response,
                                       answer = business_summary\<rparr>, sent')
                             | Inl e \<Rightarrow>
                                 (Inr \<lparr>query = nlp_question, sql_query = Some generated_sql,
                                       dataframe_content = Some df_content_for_response,
                                       answer = unexpected_answer e\<rparr>, sent'))))))"

section \<open>The managed-service variant: the conversation histories of \<open>DataQnA\<close>\<close>

text \<open>
  A message of the service is of a type \<open>'m\<close>, a dataframe of a type \<open>'d\<close> and a chart
  specification of a type \<open>'c\<close>. The stream of replies yields messages and may raise at
  any point; a call of the client that raises is a stream that raises at once.
\<close>

datatype 'm stream_event = Yield 'm | StreamRaises py_exception

datatype request_outcome = RequestBuilt | RequestValueError py_exception | RequestRaises py_exception

text \<open>The three fields of the object that the handling of a reply writes.\<close>

type_synonym ('d, 'c) outputs = "'d option \<times> 'c option \<times> string option"

record ('m, 'd, 'c) dataqna =
  conversation_histories :: "string \<rightharpoonup> 'm list"
  last_processed_dataframe :: "'d option"
  last_processed_chart_spec :: "'c option"
  current_sql_query_from_data_message :: "string option"

text \<open>
  The outside of \<open>ask_question\<close>: the message made of the text of the question, the
  construction of the request, the call of the client, and the body of the loop after
  \<open>replies_for_history.append\<close>, which reads the reply into the three fields and the
  list of text parts, or raises leaving the fields as far as it wrote them. The body
  and the helpers it calls do not mention \<open>conversation_histories\<close>.
\<close>

record ('m, 'd, 'c) dataqna_env =
  user_message :: "string \<Rightarrow> 'm"
  build_request :: "'m list \<Rightarrow> request_outcome"
  client_ask_question :: "'m list \<Rightarrow> 'm stream_event list"
  handle_reply ::
    "'m \<Rightarrow> ('d, 'c) outputs \<times> string list
       \<Rightarrow> (py_exception \<times> ('d, 'c) outputs) + (('d, 'c) outputs \<times> string list)"

record ('d, 'c) qna_result =
  qna_answer :: string
  qna_dataframe_content :: "'d option"
  qna_vega_lite_spec :: "'c option"
  qna_sql_query :: "string option"
  qna_conversation_id :: "string option"

text \<open>The truth value of an optional string: \<open>None\<close> and the empty string are false.\<close>

definition truthy :: "string option \<Rightarrow> bool" where
  "truthy conversation_id = (case conversation_id of None \<Rightarrow> False | Some c \<Rightarrow> c \<noteq> [])"

definition reset_conversation ::
  "('m, 'd, 'c) dataqna \<Rightarrow> string option \<Rightarrow> ('m, 'd, 'c) dataqna" where
  "reset_conversation self conversation_id =
     (case conversation_id of
        None \<Rightarrow> self
      | Some c \<Rightarrow>
          if c \<noteq> [] \<and> c \<in> dom (conversation_histories self)
          then self\<lparr>conversation_histories := (conversation_histories self)(c := None)\<rparr>
          else self)"

text \<open>
  The loop over the stream. The result is the exception with the fields as they are when
  it is raised, or \<open>replies_for_history\<close>, the fields and the text parts at the end.
\<close>

fun process_stream ::
  "('m \<Rightarrow> ('d, 'c) outputs \<times> string list
      \<Rightarrow> (py_exception \<times> ('d, 'c) outputs) + (('d, 'c) outputs \<times> string list))
   \<Rightarrow> 'm stream_event list \<Rightarrow> 'm list \<Rightarrow> ('d, 'c) outputs \<Rightarrow> string list
   \<Rightarrow> (py_exception \<times> ('d, 'c) outputs) + ('m list \<times> ('d, 'c) outputs \<times> string list)" where
  "process_stream handle [] replies_for_history outs text_parts =
     Inr (replies_for_history, outs, text_parts)"
| "process_stream handle (StreamRaises e # _) replies_for_history outs text_parts = Inl (e, outs)"
| "process_stream handle (Yield msg_container # rest) replies_for_history outs text_parts =
     (case handle msg_container (outs, text_parts) of
        Inl failure \<Rightarrow> Inl failure
      | Inr (outs', text_parts') \<Rightarrow>
          process_stream handle rest (replies_for_history @ [msg_container]) outs' text_parts')"

text \<open>The messages a stream yields.\<close>

fun yielded :: "'m stream_event list \<Rightarrow> 'm list" where
  "yielded [] = []"
| "yielded (Yield m # rest) = m # yielded rest"
| "yielded (StreamRaises e # rest) = yielded rest"

definition set_outputs ::
  "('m, 'd, 'c) dataqna \<Rightarrow> ('d, 'c) outputs \<Rightarrow> ('m, 'd, 'c) dataqna" where
  "set_outputs self outs =
     (case outs of (dataframe, chart_spec, sql) \<Rightarrow>
        self\<lparr>last_processed_dataframe := dataframe, last_processed_chart_spec := chart_spec,
              current_sql_query_from_data_message := sql\<rparr>)"

definition final_text_reply :: "('d, 'c) outputs \<Rightarrow> string list \<Rightarrow> string" where
  "final_text_reply outs accumulated_final_text_parts =
     (case outs of (dataframe, chart_spec, sql) \<Rightarrow>
        let joined = strip (concat accumulated_final_text_parts)
        in if joined \<noteq> [] then joined
           else if chart_spec \<noteq> None then
             ''[DataQnA provided a chart. No additional text summary.]''
           else if dataframe \<noteq> None then
             ''[DataQnA provided tabular data. No additional text summary.]''
           else if truthy sql then ''[DataQnA generated SQL. No specific text summary.]''
           else ''[DataQnA provided no specific text, data, or chart output.]'')"

definition error_result :: "string \<Rightarrow> string option \<Rightarrow> ('d, 'c) qna_result" where
  "error_result answer_text conversation_id =
     \<lparr>qna_answer = answer_text, qna_dataframe_content = None, qna_vega_lite_spec = None,
      qna_sql_query = None, qna_conversation_id = conversation_id\<rparr>"

text \<open>
  The local variables \<open>current_history\<close> and \<open>messages_to_send\<close>:
  \<open>self.conversation_histories.get(conversation_id, []) if conversation_id else []\<close>
  and that list followed by the input message.
\<close>

definition current_history :: "('m, 'd, 'c) dataqna \<Rightarrow> string option \<Rightarrow> 'm list" where
  "current_history self conversation_id =
     (case conversation_id of
        None \<Rightarrow> []
      | Some c \<Rightarrow>
          if c \<noteq> [] then
            (case conversation_histories self c of Some h \<Rightarrow> h | None \<Rightarrow> [])
          else [])"

definition messages_to_send ::
  "('m, 'd, 'c) dataqna_env \<Rightarrow> ('m, 'd, 'c) dataqna \<Rightarrow> string \<Rightarrow> string option \<Rightarrow> 'm list" where
  "messages_to_send env self question_text conversation_id =
     current_history self conversation_id @ [user_message env question_text]"

text \<open>
  \<open>ask_question\<close>: the result is \<open>Inl\<close> for an exception that leaves the method (a request
  whose construction raises something other than \<open>ValueError\<close>) and \<open>Inr\<close> for the
  dictionary it returns; the second component is the object afterwards.
\<close>

definition ask_question ::
  "('m, 'd, 'c) dataqna_env \<Rightarrow> ('m, 'd, 'c) dataqna \<Rightarrow> string \<Rightarrow> string option
     \<Rightarrow> (py_exception + ('d, 'c) qna_result) \<times> ('m, 'd, 'c) dataqna" where
  "ask_question env self question_text conversation_id =
     (let self1 = set_outputs self (None, None, None);
          history = current_history self1 conversation_id;
          input_message = user_message env question_text;
          messages = messages_to_send env self1 question_text conversation_id
      in case build_request env messages of
           RequestRaises e \<Rightarrow> (Inl e, self1)
         | RequestValueError ve_req \<Rightarrow>
             (Inr (error_result
                     (''Internal error: DataQnA request construction failed (''
                        @ message ve_req @ '').'')
                     conversation_id), self1)
         | RequestBuilt \<Rightarrow>
             (case process_stream (handle_reply env) (client_ask_question env messages)
                     [] (None, None, None) [] of
                Inl (e, outs) \<Rightarrow>
                  (Inr (error_result
                          (''Sorry, an error occurred while processing your request via DataQnA: ''
                             @ message e)
                          conversation_id), set_outputs self1 outs)
              | Inr (replies_for_history, outs, accumulated_final_text_parts) \<Rightarrow>
                  (let self2 = set_outputs self1 outs;
                       self3 =
                         (case conversation_id of
                            None \<Rightarrow> self2
                          | Some c \<Rightarrow>
                              if c \<noteq> [] then
                                self2\<lparr>conversation_histories :=
                                        (conversation_histories self2)
                                          (c \<mapsto> history @ [input_message]
                                                 @ replies_for_history)\<rparr>
                              else self2)
                   in (Inr \<lparr>qna_answer = final_text_reply outs accumulated_final_text_parts,
                            qna_dataframe_content = fst outs,
                            qna_vega_lite_spec = fst (snd outs),
                            qna_sql_query = snd (snd outs),
                            qna_conversation_id = conversation_id\<rparr>, self3))))"

section \<open>Properties of the regular expressions\<close>

lemma isspace_not_word: "isspace c \<Longrightarrow> \<not> is_word c"
  by (auto simp: isspace_def is_word_def Let_def)

lemma isspace_upper: "isspace c \<Longrightarrow> upper c = c"
  by (auto simp: isspace_def upper_def Let_def)

lemma word_chars_SELECT: "\<forall>k\<in>set ''SELECT''. is_word k"
  by (simp add: is_word_def)

lemma word_end_alt: "word_end r = (r = [] \<or> \<not> is_word (hd r))"
  by (cases r) (simp_all add: word_end_def)

lemma search_word_iff:
  assumes "kw \<noteq> []"
  shows "search_word kw p s \<longleftrightarrow>
     (\<exists>pre mid post. s = pre @ mid @ post \<and> map upper mid = kw
        \<and> (if pre = [] then \<not> p else \<not> is_word (last pre)) \<and> word_end post)"
proof (induction s arbitrary: p)
  case Nil
  then show ?case using assms by auto
next
  case (Cons c cs)
  show ?case
  proof
    assume "search_word kw p (c # cs)"
    then consider (here) "\<not> p" "kw_here kw (c # cs)" | (later) "search_word kw (is_word c) cs"
      by auto
    then show "\<exists>pre mid post. c # cs = pre @ mid @ post \<and> map upper mid = kw
        \<and> (if pre = [] then \<not> p else \<not> is_word (last pre)) \<and> word_end post"
    proof cases
      case here
      have "c # cs = [] @ take (length kw) (c # cs) @ drop (length kw) (c # cs)"
        by simp
      with here show ?thesis
        unfolding kw_here_def by (metis (full_types))
    next
      case later
      then obtain pre mid post where d: "cs = pre @ mid @ post" "map upper mid = kw"
        "if pre = [] then \<not> is_word c else \<not> is_word (last pre)" "word_end post"
        using Cons.IH [of "is_word c"] by blast
      have "c # cs = (c # pre) @ mid @ post" using d(1) by simp
      moreover have "\<not> is_word (last (c # pre))" using d(3) by (cases pre) auto
      ultimately show ?thesis using d(2,4)
        by (metis list.distinct(1))
    qed
  next
    assume "\<exists>pre mid post. c # cs = pre @ mid @ post \<and> map upper mid = kw
        \<and> (if pre = [] then \<not> p else \<not> is_word (last pre)) \<and> word_end post"
    then obtain pre mid post where d: "c # cs = pre @ mid @ post" "map upper mid = kw"
        "if pre = [] then \<not> p else \<not> is_word (last pre)" "word_end post"
      by blast
    show "search_word kw p (c # cs)"
    proof (cases pre)
      case Nil
      have len: "length mid = length kw" using d(2) by (metis length_map)
      have "take (length kw) (c # cs) = mid" "drop (length kw) (c # cs) = post"
        using d(1) Nil len by simp_all
      then have "kw_here kw (c # cs)" using d(2,4) by (simp add: kw_here_def)
      moreover have "\<not> p" using d(3) Nil by simp
      ultimately show ?thesis by simp
    next
      case (Cons a pre')
      then have cs: "cs = pre' @ mid @ post" and a: "a = c" using d(1) by simp_all
      have "if pre' = [] then \<not> is_word c else \<not> is_word (last pre')"
        using d(3) Cons a by (cases pre') auto
      then have "search_word kw (is_word c) cs"
        using Cons.IH [of "is_word c"] cs d(2,4) by blast
      then show ?thesis by simp
    qed
  qed
qed

lemma re_search_word_iff:
  "kw \<noteq> [] \<Longrightarrow> re_search_word kw s = occurs_as_word kw s"
proof -
  assume kw: "kw \<noteq> []"
  have "\<And>pre :: string. (if pre = [] then \<not> False else \<not> is_word (last pre))
          = (pre = [] \<or> \<not> is_word (last pre))"
    by simp
  then show ?thesis
    unfolding re_search_word_def occurs_as_word_def search_word_iff [OF kw] word_end_alt
    by simp
qed


subsection \<open>Whitespace at the ends does not matter to the patterns\<close>

lemma upper_word_not_space: "is_word (upper c) \<Longrightarrow> \<not> isspace c"
  using isspace_not_word isspace_upper by metis

lemma word_end_ws: "\<forall>w\<in>set ws. isspace w \<Longrightarrow> word_end ws"
  by (cases ws) (simp_all add: word_end_def isspace_not_word)

lemma kw_here_append_ws:
  assumes kw: "\<forall>k\<in>set kw. is_word k" and ws: "\<forall>w\<in>set ws. isspace w"
  shows "kw_here kw (x @ ws) = kw_here kw x"
proof (cases "length kw \<le> length x")
  case True
  have "word_end (drop (length kw) (x @ ws)) = word_end (drop (length kw) x)"
  proof (cases "drop (length kw) x")
    case Nil
    with True have "drop (length kw) (x @ ws) = ws" by simp
    moreover have "word_end ws" using ws by (rule word_end_ws)
    moreover have "word_end []" by (simp add: word_end_def)
    ultimately show ?thesis using Nil by (simp only:)
  next
    case (Cons a r)
    with True show ?thesis by (simp add: word_end_def)
  qed
  with True show ?thesis by (simp add: kw_here_def)
next
  case False
  have "map upper (take (length kw) x) \<noteq> kw"
  proof
    assume "map upper (take (length kw) x) = kw"
    then have "length (take (length kw) x) = length kw" by (metis length_map)
    with False show False by simp
  qed
  moreover have "map upper (take (length kw) (x @ ws)) \<noteq> kw"
  proof
    assume eq: "map upper (take (length kw) (x @ ws)) = kw"
    let ?r = "take (length kw - length x) ws"
    have len: "length (take (length kw) (x @ ws)) = length kw" using eq by (metis length_map)
    have "take (length kw) (x @ ws) = x @ ?r" using False by simp
    with len have "?r \<noteq> []" using False by auto
    then obtain w where w: "w \<in> set ?r" by (cases ?r) auto
    then have "w \<in> set ws" by (meson in_set_takeD)
    moreover have "upper w \<in> set kw"
      using eq w \<open>take (length kw) (x @ ws) = x @ ?r\<close> by (metis Un_iff image_eqI set_append set_map)
    ultimately show False using kw ws upper_word_not_space by blast
  qed
  ultimately show ?thesis by (simp add: kw_here_def)
qed

lemma search_word_ws:
  assumes "kw \<noteq> []" "\<forall>k\<in>set kw. is_word k"
  shows "\<forall>w\<in>set ws. isspace w \<Longrightarrow> \<not> search_word kw p ws"
proof (induction ws arbitrary: p)
  case Nil
  then show ?case by simp
next
  case (Cons w ws)
  have "kw_here kw ([] @ (w # ws)) = kw_here kw []"
    using assms(2) Cons.prems by (rule kw_here_append_ws)
  then have "\<not> kw_here kw (w # ws)" using assms(1) by (simp add: kw_here_def)
  with Cons show ?case by simp
qed

lemma search_word_append_ws:
  assumes "kw \<noteq> []" "\<forall>k\<in>set kw. is_word k" "\<forall>w\<in>set ws. isspace w"
  shows "search_word kw p (x @ ws) = search_word kw p x"
proof (induction x arbitrary: p)
  case Nil
  show ?case using search_word_ws [OF assms] by simp
next
  case (Cons c x)
  have "kw_here kw ((c # x) @ ws) = kw_here kw (c # x)"
    using assms(2,3) by (rule kw_here_append_ws)
  with Cons show ?case by simp
qed

lemma kw_here_space:
  assumes "kw \<noteq> []" "\<forall>k\<in>set kw. is_word k" "isspace c"
  shows "\<not> kw_here kw (c # cs)"
proof
  assume "kw_here kw (c # cs)"
  then have eq: "map upper (take (length kw) (c # cs)) = kw" by (simp add: kw_here_def)
  obtain k ks where k: "kw = k # ks" using assms(1) by (cases kw) auto
  with eq have "upper c = k" by simp
  then have "is_word (upper c)" using assms(2) k by simp
  with assms(3) show False using upper_word_not_space by blast
qed

lemma search_word_dropWhile:
  assumes "kw \<noteq> []" "\<forall>k\<in>set kw. is_word k"
  shows "search_word kw False (dropWhile isspace s) = search_word kw False s"
proof (induction s)
  case Nil
  show ?case by simp
next
  case (Cons c s)
  show ?case
  proof (cases "isspace c")
    case True
    then have "\<not> is_word c" by (rule isspace_not_word)
    with True Cons kw_here_space [OF assms True] show ?thesis by simp
  next
    case False
    then show ?thesis by simp
  qed
qed

lemma strip_decomp:
  "\<exists>ws. (\<forall>w\<in>set ws. isspace w) \<and> dropWhile isspace s = strip s @ ws"
proof -
  let ?t = "dropWhile isspace s"
  let ?ws = "rev (takeWhile isspace (rev ?t))"
  have "rev (takeWhile isspace (rev ?t) @ dropWhile isspace (rev ?t)) = rev (rev ?t)"
    by (simp only: takeWhile_dropWhile_id)
  then have "rev (dropWhile isspace (rev ?t)) @ ?ws = ?t"
    by (simp only: rev_append rev_rev_ident)
  then have "?t = strip s @ ?ws" by (simp only: strip_def)
  moreover have "\<forall>w\<in>set ?ws. isspace w" by (auto dest: set_takeWhileD)
  ultimately show ?thesis by blast
qed

lemma dropWhile_strip: "dropWhile isspace (strip s) = strip s"
proof (cases "strip s")
  case Nil
  then show ?thesis by simp
next
  case (Cons a r)
  obtain ws where ws: "dropWhile isspace s = strip s @ ws" using strip_decomp by blast
  then have "hd (dropWhile isspace s) = a" using Cons by simp
  moreover have "dropWhile isspace s \<noteq> []" using ws Cons by simp
  ultimately have "\<not> isspace a" using hd_dropWhile by metis
  with Cons show ?thesis by simp
qed

lemma re_search_word_strip:
  assumes "kw \<noteq> []" "\<forall>k\<in>set kw. is_word k"
  shows "re_search_word kw (strip s) = re_search_word kw s"
proof -
  obtain ws where ws: "\<forall>w\<in>set ws. isspace w" "dropWhile isspace s = strip s @ ws"
    using strip_decomp by blast
  have "search_word kw False (strip s) = search_word kw False (strip s @ ws)"
    using search_word_append_ws [OF assms ws(1)] by simp
  also have "\<dots> = search_word kw False s"
    using search_word_dropWhile [OF assms] ws(2) by metis
  finally show ?thesis by (simp add: re_search_word_def)
qed

lemma kw_here_strip:
  assumes "\<forall>k\<in>set kw. is_word k"
  shows "kw_here kw (dropWhile isspace (strip s)) = begins_with_word kw s"
proof -
  obtain ws where ws: "\<forall>w\<in>set ws. isspace w" "dropWhile isspace s = strip s @ ws"
    using strip_decomp by blast
  have "kw_here kw (strip s @ ws) = kw_here kw (strip s)"
    using assms ws(1) by (rule kw_here_append_ws)
  then show ?thesis
    using ws(2) by (simp add: dropWhile_strip begins_with_word_def begins_with_def kw_here_def)
qed

section \<open>The validator in terms of the unstripped string\<close>

lemma word_WITH: "\<forall>k\<in>set ''WITH''. is_word k"
  by (simp add: is_word_def)

lemma forbidden_chars:
  "kw \<in> set forbidden_keywords \<Longrightarrow> kw \<noteq> [] \<and> (\<forall>k\<in>set kw. is_word k)"
  by (auto simp: forbidden_keywords_def is_word_def)

lemma strip_Nil: "strip [] = []"
  by (simp add: strip_def)

lemma strip_empty_iff: "strip s = [] \<longleftrightarrow> (\<forall>c\<in>set s. isspace c)"
proof
  assume "strip s = []"
  then have "dropWhile isspace s = []"
    using strip_decomp [of s] hd_dropWhile [of isspace s] by (metis append_Nil hd_in_set)
  then show "\<forall>c\<in>set s. isspace c" by (metis dropWhile_eq_Nil_conv)
next
  assume "\<forall>c\<in>set s. isspace c"
  then show "strip s = []" unfolding strip_def by (auto dest: set_dropWhileD)
qed

lemma begins_with_word_strip:
  assumes "\<forall>k\<in>set kw. is_word k"
  shows "begins_with_word kw s
           = (map upper (take (length kw) (strip s)) = kw \<and> word_end (drop (length kw) (strip s)))"
  using kw_here_strip [OF assms, of s] by (simp add: dropWhile_strip kw_here_def)

lemma match_first_keyword_strip:
  "match_first_keyword (strip s) =
     (if begins_with_word ''SELECT'' s then Some (take 6 (strip s))
      else if begins_with_word ''WITH'' s then Some (take 4 (strip s))
      else None)"
proof -
  have "kw_here ''SELECT'' (dropWhile isspace (strip s)) = begins_with_word ''SELECT'' s"
       "kw_here ''WITH'' (dropWhile isspace (strip s)) = begins_with_word ''WITH'' s"
    using kw_here_strip [OF word_chars_SELECT] kw_here_strip [OF word_WITH] by blast+
  then show ?thesis
    by (simp add: match_first_keyword_def Let_def dropWhile_strip)
qed

lemma check_structure_strip:
  "check_structure (strip s) =
     (if begins_with_word ''SELECT'' s then (True, [])
      else if begins_with_word ''WITH'' s then
        (if re_search_word ''SELECT'' s then (True, []) else (False, with_message))
      else (False, start_message))"
proof -
  have l6: "length ''SELECT'' = 6" and l4: "length ''WITH'' = 4" by simp_all
  have sel: "map upper (take 6 (strip s)) = ''SELECT''" if "begins_with_word ''SELECT'' s"
    using that begins_with_word_strip [OF word_chars_SELECT, of s] unfolding l6 by blast
  have wth: "map upper (take 4 (strip s)) = ''WITH''" if "begins_with_word ''WITH'' s"
    using that begins_with_word_strip [OF word_WITH, of s] unfolding l4 by blast
  have srch: "re_search_word ''SELECT'' (strip s) = re_search_word ''SELECT'' s"
    using word_chars_SELECT by (simp add: re_search_word_strip)
  show ?thesis
    by (simp add: check_structure_def match_first_keyword_strip sel wth srch)
qed

lemma find_forbidden_strip:
  "find (\<lambda>keyword. re_search_word keyword (strip s)) forbidden_keywords
     = find (\<lambda>keyword. re_search_word keyword s) forbidden_keywords"
  by (rule find_cong) (simp_all add: forbidden_chars re_search_word_strip)

lemma validate_sql_alt:
  "validate_sql s =
     (if strip s = [] then
        \<lparr>is_valid_query_structure = False, is_safe_for_readonly = True,
         validation_error_message = empty_message\<rparr>
      else if begins_with_word ''SELECT'' s
              \<or> (begins_with_word ''WITH'' s \<and> re_search_word ''SELECT'' s) then
        (case find (\<lambda>keyword. re_search_word keyword s) forbidden_keywords of
           Some keyword \<Rightarrow>
             \<lparr>is_valid_query_structure = True, is_safe_for_readonly = False,
              validation_error_message = disallowed_message keyword\<rparr>
         | None \<Rightarrow>
             \<lparr>is_valid_query_structure = True, is_safe_for_readonly = True,
              validation_error_message = []\<rparr>)
      else
        \<lparr>is_valid_query_structure = False, is_safe_for_readonly = True,
         validation_error_message =
           (if begins_with_word ''WITH'' s then with_message else start_message)\<rparr>)"
proof (cases "strip s = []")
  case True
  then show ?thesis by (simp add: validate_sql_def)
next
  case False
  then have "s \<noteq> []" using strip_Nil by auto
  with False show ?thesis
    by (simp add: validate_sql_def Let_def check_structure_strip find_forbidden_strip)
qed


section \<open>Stripping and the code fences\<close>

lemma strip_core:
  assumes "list_all isspace ws1" "list_all isspace ws2"
    and "x \<noteq> []" "\<not> isspace (hd x)" "\<not> isspace (last x)"
  shows "strip (ws1 @ x @ ws2) = x"
proof -
  obtain a r where x: "x = a # r" using assms(3) by (cases x) auto
  have "dropWhile isspace (ws1 @ x @ ws2) = dropWhile isspace (x @ ws2)"
    using assms(1) by (simp add: list_all_iff dropWhile_append2)
  also have "\<dots> = x @ ws2" using x assms(4) by simp
  finally have 1: "dropWhile isspace (ws1 @ x @ ws2) = x @ ws2" .
  have "dropWhile isspace (rev ws2 @ rev x) = dropWhile isspace (rev x)"
    using assms(2) by (intro dropWhile_append2) (simp add: list_all_iff)
  also have "\<dots> = rev x"
  proof -
    obtain r b where xb: "x = r @ [b]" using assms(3) by (cases x rule: rev_cases) auto
    then have "\<not> isspace b" using assms(5) by simp
    then show ?thesis using xb by simp
  qed
  finally have 2: "dropWhile isspace (rev (x @ ws2)) = rev x" by simp
  show ?thesis by (simp only: strip_def 1 2 rev_rev_ident)
qed

lemma strip_strip: "strip (strip s) = strip s"
proof -
  have "strip (strip s) = rev (dropWhile isspace (rev (strip s)))"
    by (simp only: strip_def [of "strip s"] dropWhile_strip)
  also have "\<dots> = strip s" by (simp add: strip_def)
  finally show ?thesis .
qed

lemma not_prefix_sql_fence:
  assumes "\<not> prefix ''sql'' body"
  shows "\<not> prefix ''sql'' (body @ ''```'')"
  using assms by (auto simp: prefix_append prefix_Cons append_eq_Cons_conv Cons_eq_append_conv)

lemma fenced_sql:
  assumes "list_all isspace ws1" "list_all isspace ws2"
  shows "strip_markdown_fence (ws1 @ ''```sql'' @ body @ ''```'' @ ws2) = strip body"
proof -
  have "strip (ws1 @ (''```sql'' @ body @ ''```'') @ ws2) = ''```sql'' @ body @ ''```''"
    using assms by (intro strip_core) (simp_all add: isspace_def)
  then have s: "strip (ws1 @ ''```sql'' @ body @ ''```'' @ ws2) = ''```sql'' @ body @ ''```''"
    by simp
  show ?thesis
    unfolding strip_markdown_fence_def s Let_def
    by (simp add: suffix_def)
qed

lemma fenced_plain:
  assumes "list_all isspace ws1" "list_all isspace ws2" "\<not> prefix ''sql'' body"
  shows "strip_markdown_fence (ws1 @ ''```'' @ body @ ''```'' @ ws2) = strip body"
proof -
  have "strip (ws1 @ (''```'' @ body @ ''```'') @ ws2) = ''```'' @ body @ ''```''"
    using assms(1,2) by (intro strip_core) (simp_all add: isspace_def)
  then have s: "strip (ws1 @ ''```'' @ body @ ''```'' @ ws2) = ''```'' @ body @ ''```''"
    by simp
  have np: "\<not> prefix ''```sql'' (''```'' @ body @ ''```'')"
    using not_prefix_sql_fence [OF assms(3)] by simp
  show ?thesis
    unfolding strip_markdown_fence_def s Let_def using np
    by (simp add: suffix_def)
qed

lemma unfenced:
  assumes "\<not> prefix ''```'' (strip raw)" "\<not> suffix ''```'' (strip raw)"
  shows "strip_markdown_fence raw = strip raw"
proof -
  have "\<not> prefix ''```sql'' (strip raw)"
    using assms(1) by (auto simp: prefix_def)
  then show ?thesis using assms
    by (simp add: strip_markdown_fence_def Let_def strip_strip)
qed

lemma lead_plain_only:
  assumes "strip raw = ''```'' @ rest" "\<not> prefix ''sql'' rest" "\<not> suffix ''```'' rest"
  shows "strip_markdown_fence raw = strip rest"
  using assms by (simp add: strip_markdown_fence_def Let_def)



section \<open>The forbidden-keyword scan\<close>



lemma valid_structure_iff:
  "is_valid_query_structure (validate_sql s) \<longleftrightarrow>
     strip s \<noteq> [] \<and> (begins_with_word ''SELECT'' s
        \<or> (begins_with_word ''WITH'' s \<and> occurs_as_word ''SELECT'' s))"
  by (simp add: validate_sql_alt re_search_word_iff split: option.splits)





section \<open>Structure before safety\<close>


text \<open>
  C2. The checks apply in a fixed order and the first failure decides. An empty or
  whitespace-only string is rejected with \<open>LLM returned an empty SQL query.\<close>. A string
  that is not blank and fails the structure check is rejected with the message of the
  structure check, and the safety flag is left as it was set, \<open>True\<close>: the keyword scan
  has not run. The safety flag is cleared only for a string that passed the structure
  check. \<open>DROP TABLE t\<close> contains the forbidden keyword \<open>DROP\<close> and is rejected with the
  structure message.
\<close>

theorem rejection_precedence:
  "((\<forall>c\<in>set s. isspace c) \<longrightarrow>
      validate_sql s = \<lparr>is_valid_query_structure = False, is_safe_for_readonly = True,
                        validation_error_message = empty_message\<rparr>
      \<and> rejected (validate_sql s) \<and> rejection_answer (validate_sql s) = empty_message)
   \<and> ((\<exists>c\<in>set s. \<not> isspace c) \<and> \<not> is_valid_query_structure (validate_sql s) \<longrightarrow>
        is_safe_for_readonly (validate_sql s) \<and> rejected (validate_sql s)
        \<and> rejection_answer (validate_sql s)
             = (if begins_with_word ''WITH'' s then with_message else start_message))
   \<and> (\<not> is_safe_for_readonly (validate_sql s) \<longrightarrow> is_valid_query_structure (validate_sql s))
   \<and> rejection_answer (validate_sql []) = ''LLM returned an empty SQL query.''
   \<and> rejection_answer (validate_sql ''  '') = ''LLM returned an empty SQL query.''
   \<and> occurs_as_word ''DROP'' ''DROP TABLE t''
   \<and> is_safe_for_readonly (validate_sql ''DROP TABLE t'')
   \<and> rejection_answer (validate_sql ''DROP TABLE t'')
        = ''Generated SQL must start with SELECT or WITH.''"
proof -
  have blank: "validate_sql s = \<lparr>is_valid_query_structure = False, is_safe_for_readonly = True,
                        validation_error_message = empty_message\<rparr>
      \<and> rejected (validate_sql s) \<and> rejection_answer (validate_sql s) = empty_message"
    if "\<forall>c\<in>set s. isspace c"
  proof -
    have "strip s = []" using that by (simp add: strip_empty_iff)
    then show ?thesis
      by (simp add: validate_sql_alt rejected_def rejection_answer_def empty_message_def)
  qed
  have struct: "is_safe_for_readonly (validate_sql s) \<and> rejected (validate_sql s)
        \<and> rejection_answer (validate_sql s)
             = (if begins_with_word ''WITH'' s then with_message else start_message)"
    if "\<exists>c\<in>set s. \<not> isspace c" "\<not> is_valid_query_structure (validate_sql s)"
  proof -
    have "strip s \<noteq> []" using that(1) by (simp add: strip_empty_iff)
    then show ?thesis using that(2)
      by (auto simp: validate_sql_alt rejected_def rejection_answer_def with_message_def
            start_message_def split: if_splits option.splits)
  qed
  have safe: "is_valid_query_structure (validate_sql s)" if "\<not> is_safe_for_readonly (validate_sql s)"
    using that by (auto simp: validate_sql_alt split: if_splits option.splits)
  have c1: "rejection_answer (validate_sql []) = ''LLM returned an empty SQL query.''"
    by code_simp
  have c2: "rejection_answer (validate_sql ''  '') = ''LLM returned an empty SQL query.''"
    by code_simp
  have "re_search_word ''DROP'' ''DROP TABLE t''" by code_simp
  then have c3: "occurs_as_word ''DROP'' ''DROP TABLE t''"
    by (simp add: re_search_word_iff)
  have c4: "is_safe_for_readonly (validate_sql ''DROP TABLE t'')" by code_simp
  have c5: "rejection_answer (validate_sql ''DROP TABLE t'')
        = ''Generated SQL must start with SELECT or WITH.''" by code_simp
  show ?thesis using blank struct safe c1 c2 c3 c4 c5 by blast
qed

text \<open>
  The theorem at a whitespace-only string, at a \<open>WITH\<close> string that has no \<open>SELECT\<close> but
  names \<open>drop\<close>, and at a query that the keyword scan rejects.
\<close>

theorem rejection_precedence_witness:
  "list_all isspace ''\<newline> ''
   \<and> rejection_answer (validate_sql ''\<newline> '') = empty_message
   \<and> (\<exists>c\<in>set ''WITH drop''. \<not> isspace c)
   \<and> \<not> is_valid_query_structure (validate_sql ''WITH drop'')
   \<and> is_safe_for_readonly (validate_sql ''WITH drop'')
   \<and> rejection_answer (validate_sql ''WITH drop'') = with_message
   \<and> \<not> is_safe_for_readonly (validate_sql ''SELECT 1; DROP TABLE t'')
   \<and> is_valid_query_structure (validate_sql ''SELECT 1; DROP TABLE t'')"
proof -
  have a: "\<forall>c\<in>set ''\<newline> ''. isspace c" by (simp add: isspace_def)
  have b: "\<exists>c\<in>set ''WITH drop''. \<not> isspace c" by (simp add: isspace_def)
  have c: "\<not> is_valid_query_structure (validate_sql ''WITH drop'')" by code_simp
  have d: "begins_with_word ''WITH'' ''WITH drop''" by code_simp
  have e: "\<not> is_safe_for_readonly (validate_sql ''SELECT 1; DROP TABLE t'')" by code_simp
  have r1: "rejection_answer (validate_sql ''\<newline> '') = empty_message"
    using a rejection_precedence [of "''\<newline> ''"] by blast
  have r2: "is_safe_for_readonly (validate_sql ''WITH drop'')
            \<and> rejection_answer (validate_sql ''WITH drop'') = with_message"
    using b c d rejection_precedence [of "''WITH drop''"] by presburger
  have r3: "is_valid_query_structure (validate_sql ''SELECT 1; DROP TABLE t'')"
    using e rejection_precedence [of "''SELECT 1; DROP TABLE t''"] by blast
  have a': "list_all isspace ''\<newline> ''" using a by (simp only: list_all_iff)
  show ?thesis using a' b c e r1 r2 r3 by blast
qed

section \<open>Strings that begin with WITH\<close>








text \<open>
  The search for \<open>SELECT\<close> covers the whole string, the body of the common table
  expression included: \<open>WITH x AS (SELECT 1)\<close> is not rejected.
\<close>

theorem cte_only_counterexample:
  "\<not> (rejected (validate_sql ''WITH x AS (SELECT 1)'')
       \<and> rejection_answer (validate_sql ''WITH x AS (SELECT 1)'') = with_message)"
  by code_simp

text \<open>
  C4, as the code has it. The validator accepts \<open>WITH x AS (SELECT 1)\<close>: both flags are
  set and no message is produced, because \<open>SELECT\<close> occurs in the string as a whole word.
  The message for \<open>WITH\<close> without \<open>SELECT\<close> is given to a string such as
  \<open>WITH x AS (1)\<close>, in which \<open>SELECT\<close> does not occur at all.
\<close>

theorem cte_only_accepted:
  "validate_sql ''WITH x AS (SELECT 1)''
     = \<lparr>is_valid_query_structure = True, is_safe_for_readonly = True,
        validation_error_message = []\<rparr>
   \<and> \<not> rejected (validate_sql ''WITH x AS (SELECT 1)'')
   \<and> rejection_answer (validate_sql ''WITH x AS (1)'')
       = ''SQL starts with WITH but does not contain a SELECT statement.''"
  by code_simp

text \<open>Acceptance spelled out: both flags of the verdict are set.\<close>

theorem cte_only_accepted_witness:
  "is_valid_query_structure (validate_sql ''WITH x AS (SELECT 1)'')
   \<and> is_safe_for_readonly (validate_sql ''WITH x AS (SELECT 1)'')"
  using cte_only_accepted by (simp add: rejected_def)

section \<open>Strings that begin with neither keyword\<close>




section \<open>The reply of the generator without its fences\<close>

text \<open>
  C6. The post-processing of the reply of the generator strips one leading code fence
  (\<open>```sql\<close>, or else \<open>```\<close>) and one trailing fence (\<open>```\<close>) if present, and the
  whitespace around what is left: a reply fenced on both sides, with whitespace around
  the fences, gives its stripped body; a fence on one side only, of either kind at the
  front or the one at the end, is removed as well; a
  reply with no fence is only stripped; the result has no surrounding whitespace. The
  reply \<open>```sql\<close>, newline, \<open>SELECT 1\<close>, newline, \<open>```\<close> becomes exactly \<open>SELECT 1\<close>. One
  fence is removed on each side, not more: of two nested pairs the inner one stays.
\<close>

theorem fence_stripping:
  "(list_all isspace ws1 \<and> list_all isspace ws2 \<longrightarrow>
      strip_markdown_fence (ws1 @ ''```sql'' @ body @ ''```'' @ ws2) = strip body)
   \<and> (list_all isspace ws1 \<and> list_all isspace ws2 \<and> \<not> prefix ''sql'' body \<longrightarrow>
      strip_markdown_fence (ws1 @ ''```'' @ body @ ''```'' @ ws2) = strip body)
   \<and> (strip raw = ''```sql'' @ rest \<and> \<not> suffix ''```'' rest \<longrightarrow>
      strip_markdown_fence raw = strip rest)
   \<and> (strip raw = rest @ ''```'' \<and> \<not> prefix ''```'' (strip raw) \<longrightarrow>
      strip_markdown_fence raw = strip rest)
   \<and> (\<not> prefix ''```'' (strip raw) \<and> \<not> suffix ''```'' (strip raw) \<longrightarrow>
      strip_markdown_fence raw = strip raw)
   \<and> strip (strip_markdown_fence raw) = strip_markdown_fence raw
   \<and> strip_markdown_fence ''```sql\<newline>SELECT 1\<newline>```'' = ''SELECT 1''
   \<and> strip_markdown_fence ''```\<newline>```sql\<newline>SELECT 1\<newline>```\<newline>```''
        = ''```sql\<newline>SELECT 1\<newline>```''
   \<and> (strip raw = ''```'' @ rest \<and> \<not> prefix ''sql'' rest \<and> \<not> suffix ''```'' rest \<longrightarrow>
      strip_markdown_fence raw = strip rest)"
proof -
  have lead: "strip_markdown_fence raw = strip rest"
    if "strip raw = ''```sql'' @ rest" "\<not> suffix ''```'' rest"
    using that by (simp add: strip_markdown_fence_def Let_def)
  have trail: "strip_markdown_fence raw = strip rest"
    if "strip raw = rest @ ''```''" "\<not> prefix ''```'' (strip raw)"
  proof -
    have "\<not> prefix ''```sql'' (strip raw)" using that(2) by (auto simp: prefix_def)
    moreover have "suffix ''```'' (rest @ ''```'')" by (simp add: suffix_def)
    ultimately show ?thesis using that
      by (simp add: strip_markdown_fence_def Let_def)
  qed
  have idem: "strip (strip_markdown_fence raw) = strip_markdown_fence raw"
    by (simp add: strip_markdown_fence_def Let_def strip_strip)
  have e1: "strip_markdown_fence ''```sql\<newline>SELECT 1\<newline>```'' = ''SELECT 1''"
    by code_simp
  have e2: "strip_markdown_fence ''```\<newline>```sql\<newline>SELECT 1\<newline>```\<newline>```''
        = ''```sql\<newline>SELECT 1\<newline>```''"
    by code_simp
  show ?thesis
    using fenced_sql [of ws1 ws2 body] fenced_plain [of ws1 ws2 body] unfenced [of raw]
      lead trail idem e1 e2 lead_plain_only [of raw rest]
    by blast
qed

text \<open>The theorem at an indented, fenced two-line query and at a reply with no fence.\<close>

theorem fence_stripping_witness:
  "list_all isspace '' '' \<and> list_all isspace ''\<newline>''
   \<and> strip_markdown_fence '' ```sql\<newline>select a\<newline>from t\<newline>```\<newline>''
        = ''select a\<newline>from t''
   \<and> \<not> prefix ''```'' (strip '' select 1 '') \<and> \<not> suffix ''```'' (strip '' select 1 '')
   \<and> strip_markdown_fence '' select 1 '' = ''select 1''"
proof -
  have h1: "list_all isspace '' ''" and h2: "list_all isspace ''\<newline>''"
    by (simp_all add: isspace_def)
  have "strip_markdown_fence ('' '' @ ''```sql'' @ ''\<newline>select a\<newline>from t\<newline>'' @ ''```'' @ ''\<newline>'')
          = strip ''\<newline>select a\<newline>from t\<newline>''"
    using h1 h2 fence_stripping [of "'' ''" "''\<newline>''" "''\<newline>select a\<newline>from t\<newline>''"]
    by blast
  moreover have "strip ''\<newline>select a\<newline>from t\<newline>'' = ''select a\<newline>from t''"
    by code_simp
  ultimately have a: "strip_markdown_fence '' ```sql\<newline>select a\<newline>from t\<newline>```\<newline>''
        = ''select a\<newline>from t''"
    by simp
  have s: "strip '' select 1 '' = ''select 1''" by code_simp
  have b: "\<not> prefix ''```'' (strip '' select 1 '')" "\<not> suffix ''```'' (strip '' select 1 '')"
    unfolding s by (simp_all add: suffix_def)
  have "strip_markdown_fence '' select 1 '' = strip '' select 1 ''"
    using b fence_stripping [where raw = "'' select 1 ''"] by blast
  then have c: "strip_markdown_fence '' select 1 '' = ''select 1''" using s by simp
  show ?thesis using h1 h2 a b c by blast
qed


section \<open>Cells of the query result\<close>






section \<open>The response to a rejected query\<close>

lemma rejected_message_nonempty:
  "rejected (validate_sql s) \<Longrightarrow> validation_error_message (validate_sql s) \<noteq> []"
  by (auto simp: validate_sql_alt rejected_def empty_message_def with_message_def
        start_message_def disallowed_message_def split: if_splits option.splits)

lemma rejection_answer_is_message:
  "rejected (validate_sql s) \<Longrightarrow>
     rejection_answer (validate_sql s) = validation_error_message (validate_sql s)"
  using rejected_message_nonempty [of s] by (simp add: rejection_answer_def)

text \<open>
  C7. Whenever the validation of the generated SQL fails, the endpoint \<open>/ask\<close> of the
  direct-SQL service returns a response body (status 200) whose \<open>sql_query\<close> is the
  rejected SQL, whose \<open>dataframe_content\<close> is null and whose \<open>answer\<close> is the message
  of the validation; the list of queries handed to the BigQuery client is unchanged, so
  the rejected query is not sent for execution. Validation is reached when both services
  are initialised and the generator has returned the SQL.
\<close>

theorem validation_failure_response:
  assumes "vertex_ai_initialized svc" and "bq_client svc \<noteq> None"
    and "generate_sql_from_nlp svc p (schema_description p) nlp_question = Inr generated_sql"
    and "rejected (validate_sql generated_sql)"
  shows "ask_nlp_query svc p nlp_question sent
           = (Inr \<lparr>query = nlp_question, sql_query = Some generated_sql,
                   dataframe_content = None,
                   answer = validation_error_message (validate_sql generated_sql)\<rparr>,
              sent)"
proof -
  have "get_bigquery_table_schema svc p = Inr (schema_description p)"
    using assms(2) by (auto simp: get_bigquery_table_schema_def split: option.splits)
  then show ?thesis
    using assms by (simp add: ask_nlp_query_def rejection_answer_is_message)
qed

text \<open>The theorem at a generator that replies with a fenced \<open>DROP TABLE\<close> statement.\<close>

theorem validation_failure_response_witness:
  "ask_nlp_query
     \<lparr>vertex_ai_initialized = True,
      bq_client = Some (\<lambda>sql. Inr []),
      sql_model = \<lparr>model_init = None,
                   generate_content = (\<lambda>prompt. Inr ''```sql\<newline>DROP TABLE t\<newline>```'')\<rparr>,
      summary_model = \<lparr>model_init = None, generate_content = (\<lambda>prompt. Inr ''ok'')\<rparr>,
      json_dumps = (\<lambda>r. ''{}''), type_name = (\<lambda>v. [])\<rparr>
     \<lparr>sql_generation_guidelines = ''g'', schema_description = ''s'', table_name = ''p.d.t'',
      summary_instructions = ''i''\<rparr>
     ''drop the table'' []
   = (Inr \<lparr>query = ''drop the table'', sql_query = Some ''DROP TABLE t'',
           dataframe_content = None,
           answer = ''Generated SQL must start with SELECT or WITH.''\<rparr>, [])"
proof -
  let ?svc = "\<lparr>vertex_ai_initialized = True,
      bq_client = Some (\<lambda>sql. Inr []),
      sql_model = \<lparr>model_init = None,
                   generate_content = (\<lambda>prompt. Inr ''```sql\<newline>DROP TABLE t\<newline>```'')\<rparr>,
      summary_model = \<lparr>model_init = None, generate_content = (\<lambda>prompt. Inr ''ok'')\<rparr>,
      json_dumps = (\<lambda>r. ''{}''), type_name = (\<lambda>v. [])\<rparr>"
  let ?p = "\<lparr>sql_generation_guidelines = ''g'', schema_description = ''s'',
             table_name = ''p.d.t'', summary_instructions = ''i''\<rparr>"
  have f: "strip_markdown_fence ''```sql\<newline>DROP TABLE t\<newline>```'' = ''DROP TABLE t''"
    by code_simp
  have a: "vertex_ai_initialized ?svc" and b: "bq_client ?svc \<noteq> None" by simp_all
  have c: "generate_sql_from_nlp ?svc ?p (schema_description ?p) ''drop the table''
             = Inr ''DROP TABLE t''"
    by (simp add: generate_sql_from_nlp_def f)
  have d: "rejected (validate_sql ''DROP TABLE t'')" by code_simp
  have m: "validation_error_message (validate_sql ''DROP TABLE t'')
             = ''Generated SQL must start with SELECT or WITH.''"
    by code_simp
  show ?thesis
    using validation_failure_response [OF a b c d, of "[]"] by (simp only: m)
qed


section \<open>The summarizer\<close>







lemma column_names_as_rows: "map fst (hd (as_rows (r # rs))) = map fst r"
  by (simp add: as_rows_def split_def comp_def)






















section \<open>The conversation histories are touched at one key only\<close>

lemma process_stream_replies:
  "process_stream handle events replies outs text_parts = Inr (replies', outs', text_parts')
     \<Longrightarrow> replies' = replies @ yielded events"
proof (induction events arbitrary: replies outs text_parts)
  case Nil
  then show ?case by simp
next
  case (Cons ev events)
  show ?case
  proof (cases ev)
    case (Yield m)
    with Cons.prems obtain o1 p1 where
      "process_stream handle events (replies @ [m]) o1 p1 = Inr (replies', outs', text_parts')"
      by (auto split: sum.splits)
    then have "replies' = (replies @ [m]) @ yielded events" by (rule Cons.IH)
    with Yield show ?thesis by simp
  next
    case (StreamRaises e)
    with Cons.prems show ?thesis by simp
  qed
qed

lemma histories_set_outputs:
  "conversation_histories (set_outputs self outs) = conversation_histories self"
  by (cases outs) (simp add: set_outputs_def)

lemma current_history_set_outputs:
  "current_history (set_outputs self outs) conversation_id = current_history self conversation_id"
  by (simp add: current_history_def histories_set_outputs split: option.splits)

lemma messages_set_outputs:
  "messages_to_send env (set_outputs self outs) q conversation_id
     = messages_to_send env self q conversation_id"
  by (simp add: messages_to_send_def current_history_set_outputs)

lemma ask_question_completed:
  assumes "c \<noteq> []"
    and "build_request env (messages_to_send env self q (Some c)) = RequestBuilt"
    and "process_stream (handle_reply env)
           (client_ask_question env (messages_to_send env self q (Some c)))
           [] (None, None, None) [] = Inr (replies, outs, text_parts)"
  shows "conversation_histories (snd (ask_question env self q (Some c)))
           = (conversation_histories self)
               (c \<mapsto> current_history self (Some c) @ [user_message env q]
                      @ yielded (client_ask_question env (messages_to_send env self q (Some c))))"
proof -
  have "replies = yielded (client_ask_question env (messages_to_send env self q (Some c)))"
    using process_stream_replies [OF assms(3)] by simp
  then show ?thesis
    using assms
    by (simp add: ask_question_def Let_def messages_set_outputs current_history_set_outputs
          histories_set_outputs)
qed

lemma ask_question_failed:
  assumes "build_request env (messages_to_send env self q conversation_id) \<noteq> RequestBuilt
           \<or> process_stream (handle_reply env)
                (client_ask_question env (messages_to_send env self q conversation_id))
                [] (None, None, None) [] = Inl failure"
  shows "conversation_histories (snd (ask_question env self q conversation_id))
           = conversation_histories self"
  using assms
  by (cases failure)
     (auto simp: ask_question_def Let_def messages_set_outputs histories_set_outputs
           split: request_outcome.splits)

lemma ask_question_stateless:
  assumes "\<not> truthy conversation_id"
  shows "conversation_histories (snd (ask_question env self q conversation_id))
           = conversation_histories self"
  using assms
  by (auto simp: ask_question_def Let_def truthy_def histories_set_outputs
           split: request_outcome.splits sum.splits option.splits prod.splits)

lemma ask_question_frame:
  assumes "Some c' \<noteq> conversation_id"
  shows "conversation_histories (snd (ask_question env self q conversation_id)) c'
           = conversation_histories self c'"
  using assms
  by (auto simp: ask_question_def Let_def histories_set_outputs
           split: request_outcome.splits sum.splits option.splits prod.splits)

lemma reset_conversation_frame:
  assumes "Some c' \<noteq> conversation_id"
  shows "conversation_histories (reset_conversation self conversation_id) c'
           = conversation_histories self c'"
  using assms by (auto simp: reset_conversation_def split: option.splits)

lemma reset_conversation_removes:
  "c \<noteq> [] \<Longrightarrow>
     conversation_histories (reset_conversation self (Some c))
       = (conversation_histories self)(c := None)"
  by (auto simp: reset_conversation_def fun_eq_iff)

lemma reset_conversation_stateless:
  "\<not> truthy conversation_id \<Longrightarrow> reset_conversation self conversation_id = self"
  by (auto simp: reset_conversation_def truthy_def split: option.splits)


lemma process_stream_complete:
  "process_stream handle events replies outs text_parts = Inr result
     \<Longrightarrow> events = map Yield (yielded events)"
proof (induction events arbitrary: replies outs text_parts)
  case Nil
  then show ?case by simp
next
  case (Cons ev events)
  show ?case
  proof (cases ev)
    case (Yield m)
    with Cons.prems obtain o1 p1 where
      "process_stream handle events (replies @ [m]) o1 p1 = Inr result"
      by (auto split: sum.splits)
    then have "events = map Yield (yielded events)" by (rule Cons.IH)
    with Yield show ?thesis by simp
  next
    case (StreamRaises e)
    with Cons.prems show ?thesis by simp
  qed
qed

lemma current_history_entry:
  "c \<noteq> [] \<Longrightarrow>
     current_history self (Some c)
       = (case conversation_histories self c of Some h \<Rightarrow> h | None \<Rightarrow> [])"
  by (simp add: current_history_def)

text \<open>
  C10. In the managed-service variant every operation on the map of conversation
  histories touches at most the entry of the id it is given. \<open>ask_question\<close> leaves the
  entry of every other id as it was. Called with no id, or with the empty id, it leaves
  the map unchanged. Called with an id \<open>c\<close>, when the request is built and the stream
  ends without an error, it sets the entry of \<open>c\<close> to its prior value (empty when there
  was none), followed by the input message, followed by all the replies of the stream;
  when the request cannot be built or the stream or the handling of a reply raises, the
  map is unchanged. \<open>reset_conversation\<close> leaves the entry of every other id as it was,
  removes the entry of a non-empty id, and does nothing for no id or the empty one.
\<close>

theorem conversation_histories_frame:
  "(Some c' \<noteq> conversation_id \<longrightarrow>
      conversation_histories (snd (ask_question env self q conversation_id)) c'
        = conversation_histories self c')
   \<and> (\<not> truthy conversation_id \<longrightarrow>
      conversation_histories (snd (ask_question env self q conversation_id))
        = conversation_histories self)
   \<and> (c \<noteq> []
        \<and> build_request env (messages_to_send env self q (Some c)) = RequestBuilt
        \<and> process_stream (handle_reply env)
             (client_ask_question env (messages_to_send env self q (Some c)))
             [] (None, None, None) [] = Inr (replies, outs, text_parts) \<longrightarrow>
      conversation_histories (snd (ask_question env self q (Some c)))
        = (conversation_histories self)
            (c \<mapsto> current_history self (Some c) @ [user_message env q]
                   @ yielded (client_ask_question env (messages_to_send env self q (Some c)))))
   \<and> (process_stream (handle_reply env)
             (client_ask_question env (messages_to_send env self q (Some c)))
             [] (None, None, None) [] = Inr (replies, outs, text_parts) \<longrightarrow>
      client_ask_question env (messages_to_send env self q (Some c))
        = map Yield (yielded (client_ask_question env (messages_to_send env self q (Some c)))))
   \<and> (c \<noteq> [] \<longrightarrow>
      current_history self (Some c)
        = (case conversation_histories self c of Some h \<Rightarrow> h | None \<Rightarrow> []))
   \<and> (build_request env (messages_to_send env self q conversation_id) \<noteq> RequestBuilt
        \<or> process_stream (handle_reply env)
             (client_ask_question env (messages_to_send env self q conversation_id))
             [] (None, None, None) [] = Inl failure \<longrightarrow>
      conversation_histories (snd (ask_question env self q conversation_id))
        = conversation_histories self)
   \<and> (Some c' \<noteq> conversation_id \<longrightarrow>
      conversation_histories (reset_conversation self conversation_id) c'
        = conversation_histories self c')
   \<and> (c \<noteq> [] \<longrightarrow>
      conversation_histories (reset_conversation self (Some c))
        = (conversation_histories self)(c := None))
   \<and> (\<not> truthy conversation_id \<longrightarrow> reset_conversation self conversation_id = self)"
  apply (intro conjI impI)
          apply (erule ask_question_frame)
         apply (erule ask_question_stateless)
        apply (elim conjE, erule (2) ask_question_completed)
       apply (erule process_stream_complete)
      apply (erule current_history_entry)
     apply (erule ask_question_failed)
    apply (erule reset_conversation_frame)
   apply (erule reset_conversation_removes)
  apply (erule reset_conversation_stateless)
  done

text \<open>
  The theorem at a map with two conversations and a stream of two replies: the history
  of the first grows, that of the second stays, and a reset removes the first.
\<close>

theorem conversation_histories_frame_witness:
  "conversation_histories
      (snd (ask_question
              \<lparr>user_message = (\<lambda>t. ''user: '' @ t), build_request = (\<lambda>ms. RequestBuilt),
               client_ask_question = (\<lambda>ms. [Yield ''reply A'', Yield ''reply B'']),
               handle_reply = (\<lambda>m (outs, tp). Inr (outs, tp @ [m]))\<rparr>
              \<lparr>conversation_histories = [''c1'' \<mapsto> [''old''], ''c2'' \<mapsto> [''other'']],
               last_processed_dataframe = (None :: unit option),
               last_processed_chart_spec = (None :: unit option),
               current_sql_query_from_data_message = None\<rparr>
              ''hi'' (Some ''c1''))) ''c1''
     = Some [''old'', ''user: hi'', ''reply A'', ''reply B'']
   \<and> conversation_histories
      (snd (ask_question
              \<lparr>user_message = (\<lambda>t. ''user: '' @ t), build_request = (\<lambda>ms. RequestBuilt),
               client_ask_question = (\<lambda>ms. [Yield ''reply A'', Yield ''reply B'']),
               handle_reply = (\<lambda>m (outs, tp). Inr (outs, tp @ [m]))\<rparr>
              \<lparr>conversation_histories = [''c1'' \<mapsto> [''old''], ''c2'' \<mapsto> [''other'']],
               last_processed_dataframe = (None :: unit option),
               last_processed_chart_spec = (None :: unit option),
               current_sql_query_from_data_message = None\<rparr>
              ''hi'' (Some ''c1''))) ''c2''
     = Some [''other'']
   \<and> conversation_histories
      (reset_conversation
         \<lparr>conversation_histories = [''c1'' \<mapsto> [''old''], ''c2'' \<mapsto> [''other'']],
          last_processed_dataframe = (None :: unit option),
          last_processed_chart_spec = (None :: unit option),
          current_sql_query_from_data_message = None\<rparr>
         (Some ''c1'')) ''c1''
     = None"
proof -
  let ?env = "\<lparr>user_message = (\<lambda>t. ''user: '' @ t), build_request = (\<lambda>ms. RequestBuilt),
               client_ask_question = (\<lambda>ms. [Yield ''reply A'', Yield ''reply B'']),
               handle_reply = (\<lambda>m (outs, tp). Inr (outs, tp @ [m]))\<rparr>
             :: (string, unit, unit) dataqna_env"
  let ?self = "\<lparr>conversation_histories = [''c1'' \<mapsto> [''old''], ''c2'' \<mapsto> [''other'']],
               last_processed_dataframe = (None :: unit option),
               last_processed_chart_spec = (None :: unit option),
               current_sql_query_from_data_message = None\<rparr>"
  have h: "''c1'' \<noteq> []
        \<and> build_request ?env (messages_to_send ?env ?self ''hi'' (Some ''c1'')) = RequestBuilt
        \<and> process_stream (handle_reply ?env)
             (client_ask_question ?env (messages_to_send ?env ?self ''hi'' (Some ''c1'')))
             [] (None, None, None) []
            = Inr ([''reply A'', ''reply B''], (None, None, None), [''reply A'', ''reply B''])"
    by simp
  note completed = conversation_histories_frame [where env = ?env and self = ?self and q = "''hi''"
      and c = "''c1''" and replies = "[''reply A'', ''reply B'']" and outs = "(None, None, None)"
      and text_parts = "[''reply A'', ''reply B'']",
      THEN conjunct2, THEN conjunct2, THEN conjunct1, THEN mp, OF h]
  have 1: "conversation_histories (snd (ask_question ?env ?self ''hi'' (Some ''c1''))) ''c1''
     = Some [''old'', ''user: hi'', ''reply A'', ''reply B'']"
    unfolding completed by (simp add: current_history_def)
  have d: "Some ''c2'' \<noteq> Some ''c1''" by simp
  note other = conversation_histories_frame [where env = ?env and self = ?self and q = "''hi''"
      and c' = "''c2''" and conversation_id = "Some ''c1''",
      THEN conjunct1, THEN mp, OF d]
  have 2: "conversation_histories (snd (ask_question ?env ?self ''hi'' (Some ''c1''))) ''c2''
     = Some [''other'']"
    unfolding other by simp
  have ne: "''c1'' \<noteq> []" by simp
  note reset = conversation_histories_frame [where self = ?self and c = "''c1''",
      THEN conjunct2, THEN conjunct2, THEN conjunct2, THEN conjunct2, THEN conjunct2,
      THEN conjunct2, THEN conjunct2, THEN conjunct1, THEN mp, OF ne]
  have 3: "conversation_histories (reset_conversation ?self (Some ''c1'')) ''c1'' = None"
    unfolding reset by simp
  show ?thesis using 1 2 3 by (intro conjI)
qed


end
